theory Spec2Isabelle
  imports Main
begin

section \<open>The host environment of TabAlert.js\<close>

text \<open>
  The script touches four things outside itself: the title of the top document, the
  first \<open>link[rel="shortcut icon"]\<close> element of that document, the interval timers
  of the window, and a canvas that turns a glyph into a data URI. They are modelled as
  one record, \<open>world\<close>, that every function of the script takes and returns.

  Numbers are mathematical integers (the JSDoc types \<open>times\<close> and \<open>delay\<close> as
  \<open>Number\<close>; the model covers their integer values), strings are \<open>string\<close>, and the
  two JavaScript values that stand for absence are written out: \<open>undefined\<close> is
  \<open>None\<close> of an option type, \<open>null\<close> is the constructor \<open>Null\<close> below.
\<close>

text \<open>What \<open>getAttribute\<close> returns and \<open>setAttribute\<close> accepts: a string or \<open>null\<close>.\<close>

datatype jsval = Null | Str string

text \<open>
  \<open>setAttribute(name, value)\<close> takes a DOMString: a value that is not a string is
  converted with ToString, and ToString of \<open>null\<close> is the four characters \<open>null\<close>.
\<close>

fun ToString :: "jsval \<Rightarrow> string" where
  "ToString Null = ''null''"
| "ToString (Str s) = s"

text \<open>An element is the map of its attributes; an attribute that is not set is \<open>None\<close>.\<close>

type_synonym element = "string \<rightharpoonup> string"

definition getAttribute :: "element \<Rightarrow> string \<Rightarrow> jsval" where
  "getAttribute e name = (case e name of None \<Rightarrow> Null | Some s \<Rightarrow> Str s)"

definition setAttribute :: "element \<Rightarrow> string \<Rightarrow> jsval \<Rightarrow> element" where
  "setAttribute e name v = e(name \<mapsto> ToString v)"

text \<open>
  \<open>window.top.document\<close>: its title, and the result of
  \<open>querySelector('link[rel="shortcut icon"]')\<close> (\<open>None\<close> when no element matches).
  The title is the string \<open>document.title\<close> holds; the script only copies it, so the
  whitespace the getter strips plays no part.
\<close>

record document =
  title :: string
  favicon :: "element option"

text \<open>The writes and the warning the script performs, in the order it performs them.\<close>

datatype effect =
    TitleWritten string
  | AttributeWritten string string
  | Warned string

section \<open>The state of one controller\<close>

text \<open>The objects \<open>{ image: ..., type: ... }\<close> held in \<open>alertIcon\<close> and \<open>originalIcon\<close>.\<close>

record icon =
  image :: jsval
  type :: jsval

text \<open>The \<open>let\<close> variables of the closure that one call of the factory creates.\<close>

record controller =
  alertDelay :: int
  alertIcon :: icon
  alertTitle :: string
  countdown :: int
  intervalID :: "nat option"
  originalIcon :: icon
  originalTitle :: string
  showOriginal :: bool

text \<open>
  The world: the document, the interval timers of the window, the closures of the
  controllers created so far, the canvas, and the log of effects.

  \<open>timers\<close> is indexed by handle: \<open>setInterval\<close> appends an entry and returns its
  index, so a handle is never reused; \<open>clearInterval\<close> sets the entry to \<open>None\<close>.
  An active entry holds the controller whose \<open>_timerEvent\<close> the callback calls and
  the delay it was installed with. \<open>instances\<close> is the store of closures, addressed
  by the identity of the controller. \<open>render\<close> is what
  \<open>canvas.toDataURL('image/png')\<close> returns after \<open>fillText\<close> of a string.
\<close>

record world =
  doc :: document
  timers :: "(nat \<times> int) option list"
  instances :: "nat \<Rightarrow> controller"
  render :: "string \<Rightarrow> string"
  effects :: "effect list"

definition modify :: "nat \<Rightarrow> (controller \<Rightarrow> controller) \<Rightarrow> world \<Rightarrow> world" where
  "modify c f w = w\<lparr>instances := (instances w)(c := f (instances w c))\<rparr>"

text \<open>\<open>window.setInterval\<close>: installs the callback of controller \<open>c\<close>, returns the handle.\<close>

definition setInterval :: "nat \<Rightarrow> int \<Rightarrow> world \<Rightarrow> nat \<times> world" where
  "setInterval c delay w = (length (timers w), w\<lparr>timers := timers w @ [Some (c, delay)]\<rparr>)"

text \<open>
  \<open>window.clearInterval\<close>: cancels the timer of the handle; \<open>undefined\<close>, or a handle
  that names no timer, is ignored.
\<close>

fun clearInterval :: "nat option \<Rightarrow> world \<Rightarrow> world" where
  "clearInterval None w = w"
| "clearInterval (Some h) w = w\<lparr>timers := (timers w)[h := None]\<rparr>"

section \<open>The script\<close>

definition DEFAULT_DELAY :: int where
  "DEFAULT_DELAY = 1000"

text \<open>
  The catalogue \<open>ICONS\<close>, from icon name to glyph. A glyph is written as the bytes of
  its UTF-8 encoding in the source file. Only the properties the object literal
  declares are modelled.
\<close>

definition ICONS :: "(string \<times> string) list" where
  "ICONS =
    [(''bellhop bell'', [CHR 0xF0, CHR 0x9F, CHR 0x9B, CHR 0x8E]),
     (''speech balloon'', [CHR 0xF0, CHR 0x9F, CHR 0x92, CHR 0xAC]),
     (''police car light'', [CHR 0xF0, CHR 0x9F, CHR 0x9A, CHR 0xA8]),
     (''stop sign'', [CHR 0xF0, CHR 0x9F, CHR 0x9B, CHR 0x91]),
     (''hour glass done'', [CHR 0xE2, CHR 0x8C, CHR 0x9B]),
     (''alarm clock'', [CHR 0xE2, CHR 0x8F, CHR 0xB0]),
     (''stopwatch'', [CHR 0xE2, CHR 0x8F, CHR 0xB1]),
     (''timer clock'', [CHR 0xE2, CHR 0x8F, CHR 0xB2]),
     (''star'', [CHR 0xE2, CHR 0xAD, CHR 0x90]),
     (''fire'', [CHR 0xF0, CHR 0x9F, CHR 0x94, CHR 0xA5]),
     (''party popper'', [CHR 0xF0, CHR 0x9F, CHR 0x8E, CHR 0x89]),
     (''bell'', [CHR 0xF0, CHR 0x9F, CHR 0x94, CHR 0x94]),
     (''envelope with arrow'', [CHR 0xF0, CHR 0x9F, CHR 0x93, CHR 0xA9]),
     (''locked'', [CHR 0xF0, CHR 0x9F, CHR 0x94, CHR 0x92]),
     (''exclamation mark'', [CHR 0xE2, CHR 0x9D, CHR 0x97]),
     (''red circle'', [CHR 0xF0, CHR 0x9F, CHR 0x94, CHR 0xB4])]"

text \<open>The state a closure starts in (lines 40 to 53): the title is read at creation.\<close>

definition initial :: "world \<Rightarrow> controller" where
  "initial w =
    \<lparr>alertDelay = DEFAULT_DELAY,
     alertIcon = \<lparr>image = Str '''', type = Str ''''\<rparr>,
     alertTitle = '''',
     countdown = - 1,
     intervalID = None,
     originalIcon = \<lparr>image = Str '''', type = Str ''''\<rparr>,
     originalTitle = title (doc w),
     showOriginal = True\<rparr>"

text \<open>The factory \<open>TabAlert\<close>: a call creates the closure of a new controller \<open>c\<close>.\<close>

definition TabAlert :: "nat \<Rightarrow> world \<Rightarrow> world" where
  "TabAlert c w = w\<lparr>instances := (instances w)(c := initial w)\<rparr>"

definition createImageFromText :: "string \<Rightarrow> world \<Rightarrow> icon" where
  "createImageFromText str w = \<lparr>image = Str (render w str), type = Str ''image/png''\<rparr>"

definition toggleFavicon :: "nat \<Rightarrow> world \<Rightarrow> world" where
  "toggleFavicon c w =
    (case favicon (doc w) of
      None \<Rightarrow> w
    | Some l \<Rightarrow>
        (let k = instances w c;
             i = (if showOriginal k then originalIcon k else alertIcon k)
         in w\<lparr>doc := (doc w)\<lparr>favicon :=
                 Some (setAttribute (setAttribute l ''type'' (type i)) ''href'' (image i))\<rparr>,
               effects := effects w @
                 [AttributeWritten ''type'' (ToString (type i)),
                  AttributeWritten ''href'' (ToString (image i))]\<rparr>))"

definition toggleTitle :: "nat \<Rightarrow> world \<Rightarrow> world" where
  "toggleTitle c w =
    (let k = instances w c;
         t = (if showOriginal k then originalTitle k else alertTitle k)
     in w\<lparr>doc := (doc w)\<lparr>title := t\<rparr>, effects := effects w @ [TitleWritten t]\<rparr>)"

definition getOriginalFavicon :: "world \<Rightarrow> icon \<times> world" where
  "getOriginalFavicon w =
    (case favicon (doc w) of
      Some l \<Rightarrow> (\<lparr>image = getAttribute l ''href'', type = getAttribute l ''type''\<rparr>, w)
    | None \<Rightarrow>
        (\<lparr>image = Str '''', type = Str ''''\<rparr>,
         w\<lparr>effects := effects w @ [Warned ''favicon not found'']\<rparr>))"

text \<open>\<open>publicObject.stop\<close>. It contains no statement that can throw.\<close>

definition stop :: "nat \<Rightarrow> world \<Rightarrow> world" where
  "stop c w =
    (let w1 = clearInterval (intervalID (instances w c)) w;
         w2 = modify c (\<lambda>k. k\<lparr>showOriginal := True\<rparr>) w1;
         w3 = toggleFavicon c w2
     in toggleTitle c w3)"

definition timerEvent :: "nat \<Rightarrow> world \<Rightarrow> world" where
  "timerEvent c w =
    (let w1 = modify c (\<lambda>k. k\<lparr>showOriginal := \<not> showOriginal k\<rparr>) w;
         w2 = modify c (\<lambda>k. k\<lparr>countdown := countdown k - 1\<rparr>) w1;
         w3 = (if countdown (instances w2 c) < - 1
               then modify c (\<lambda>k. k\<lparr>countdown := - 1\<rparr>) w2 else w2);
         w4 = (if countdown (instances w3 c) = 0 then stop c w3 else w3);
         w5 = (if image (alertIcon (instances w4 c)) \<noteq> Str '''' then toggleFavicon c w4 else w4)
     in if alertTitle (instances w5 c) \<noteq> '''' then toggleTitle c w5 else w5)"

definition startTimer :: "nat \<Rightarrow> world \<Rightarrow> world" where
  "startTimer c w =
    (let w1 = modify c (\<lambda>k. k\<lparr>showOriginal := True\<rparr>) w;
         (h, w2) = setInterval c (alertDelay (instances w1 c)) w1;
         w3 = modify c (\<lambda>k. k\<lparr>intervalID := Some h\<rparr>) w2
     in timerEvent c w3)"

text \<open>
  The argument of \<open>alert\<close>. An object is read through its four properties, each of
  which may be \<open>undefined\<close>. Reading a property of \<open>undefined\<close> or of \<open>null\<close> throws a
  TypeError, which happens at \<open>args.message\<close> on line 165, after the two captures.
\<close>

record config =
  message :: "string option"
  icon_name :: "string option"
  times :: "int option"
  delay :: "int option"

datatype argument = ArgUndefined | ArgNull | ArgObject config

datatype error = TypeError

text \<open>
  How a call ends: it returns, or it throws. Both carry the world the call leaves
  behind, since the statements before a throw have already run.
\<close>

datatype outcome = Returns world | Throws error world

text \<open>
  \<open>parseInt\<close> converts its argument to a string and reads the integer at its start.
  On the values of the \<open>delay\<close> property the model covers: \<open>undefined\<close> gives NaN
  (\<open>None\<close>), and an integer gives itself (its string is its decimal notation; that
  holds below \<open>10^21\<close> in absolute value, where JavaScript switches to exponents).
  \<open>isNaN\<close> is the test for \<open>None\<close>.
\<close>

fun parseInt :: "int option \<Rightarrow> int option" where
  "parseInt None = None"
| "parseInt (Some n) = Some n"

text \<open>\<open>ICONS[args.icon]\<close>: the glyph, or \<open>undefined\<close>. Every glyph is a non-empty string.\<close>

definition lookupIcon :: "string \<Rightarrow> string option" where
  "lookupIcon name = map_of ICONS name"

definition alert :: "nat \<Rightarrow> argument \<Rightarrow> world \<Rightarrow> outcome" where
  "alert c args w =
    (let w1 = modify c (\<lambda>k. k\<lparr>originalTitle := title (doc w)\<rparr>) w;
         (i, w2) = getOriginalFavicon w1;
         w3 = modify c (\<lambda>k. k\<lparr>originalIcon := i\<rparr>) w2
     in case args of
          ArgUndefined \<Rightarrow> Throws TypeError w3
        | ArgNull \<Rightarrow> Throws TypeError w3
        | ArgObject a \<Rightarrow>
            (let w4 = modify c (\<lambda>k. k\<lparr>alertTitle :=
                        (case message a of Some m \<Rightarrow> m | None \<Rightarrow> '''')\<rparr>) w3;
                 w5 = modify c (\<lambda>k. k\<lparr>alertIcon :=
                        (case icon_name a of
                           None \<Rightarrow> \<lparr>image = Str '''', type = Str ''''\<rparr>
                         | Some name \<Rightarrow>
                             (case lookupIcon name of
                                Some glyph \<Rightarrow> createImageFromText glyph w3
                              | None \<Rightarrow> \<lparr>image = Str '''', type = Str ''''\<rparr>))\<rparr>) w4;
                 w6 = modify c (\<lambda>k. k\<lparr>countdown :=
                        (case times a of Some n \<Rightarrow> n * 2 | None \<Rightarrow> 0)\<rparr>) w5;
                 w7 = modify c (\<lambda>k. k\<lparr>alertDelay :=
                        (case parseInt (delay a) of Some d \<Rightarrow> d | None \<Rightarrow> DEFAULT_DELAY)\<rparr>) w6
             in Returns (startTimer c w7)))"

text \<open>
  The timer with handle \<open>h\<close> elapses once: the callback runs when the timer is still
  active, and nothing happens when it has been cancelled.
\<close>

definition fire :: "nat \<Rightarrow> world \<Rightarrow> world" where
  "fire h w =
    (if h < length (timers w)
     then (case timers w ! h of None \<Rightarrow> w | Some (c, d) \<Rightarrow> timerEvent c w)
     else w)"

text \<open>The timer with handle \<open>h\<close> elapses \<open>n\<close> times in a row.\<close>

fun ticks :: "nat \<Rightarrow> nat \<Rightarrow> world \<Rightarrow> world" where
  "ticks 0 h w = w"
| "ticks (Suc n) h w = ticks n h (fire h w)"

section \<open>Observations used in the statements\<close>

text \<open>
  The element after the two \<open>setAttribute\<close> calls of \<open>_toggleFavicon\<close> have written
  the icon \<open>i\<close> to it.
\<close>

definition withIcon :: "icon \<Rightarrow> element \<Rightarrow> element" where
  "withIcon i l = setAttribute (setAttribute l ''type'' (type i)) ''href'' (image i)"

text \<open>The values assigned to \<open>document.title\<close>, oldest first.\<close>

fun titleWrites :: "effect list \<Rightarrow> string list" where
  "titleWrites [] = []"
| "titleWrites (TitleWritten t # es) = t # titleWrites es"
| "titleWrites (AttributeWritten n v # es) = titleWrites es"
| "titleWrites (Warned m # es) = titleWrites es"

text \<open>The handles of the active timers whose callback belongs to controller \<open>c\<close>.\<close>

definition activeTimers :: "nat \<Rightarrow> world \<Rightarrow> nat list" where
  "activeTimers c w =
    filter (\<lambda>h. case timers w ! h of None \<Rightarrow> False | Some (c', d) \<Rightarrow> c' = c)
      [0 ..< length (timers w)]"

text \<open>The world a call leaves behind, and the error it threw, if any.\<close>

fun world_of :: "outcome \<Rightarrow> world" where
  "world_of (Returns w) = w"
| "world_of (Throws e w) = w"


text \<open>The world after \<open>alert(a)\<close> on controller \<open>c\<close>, for a config object \<open>a\<close>.\<close>

definition afterAlert :: "nat \<Rightarrow> config \<Rightarrow> world \<Rightarrow> world" where
  "afterAlert c a w = world_of (alert c (ArgObject a) w)"

text \<open>
  The variables of the closure once \<open>alert(a)\<close> has made its assignments and
  \<open>_startTimer\<close> has installed the timer, before the first call of \<open>_timerEvent\<close>:
  each field is the right-hand side of its assignment in the source.
\<close>

definition resolved :: "nat \<Rightarrow> config \<Rightarrow> world \<Rightarrow> controller" where
  "resolved c a w =
    \<lparr>alertDelay = (case parseInt (delay a) of Some d \<Rightarrow> d | None \<Rightarrow> DEFAULT_DELAY),
     alertIcon = (case icon_name a of
                    None \<Rightarrow> \<lparr>image = Str '''', type = Str ''''\<rparr>
                  | Some name \<Rightarrow>
                      (case lookupIcon name of
                         Some glyph \<Rightarrow> createImageFromText glyph w
                       | None \<Rightarrow> \<lparr>image = Str '''', type = Str ''''\<rparr>)),
     alertTitle = (case message a of Some m \<Rightarrow> m | None \<Rightarrow> ''''),
     countdown = (case times a of Some n \<Rightarrow> n * 2 | None \<Rightarrow> 0),
     intervalID = Some (length (timers w)),
     originalIcon = fst (getOriginalFavicon w),
     originalTitle = title (doc w),
     showOriginal = True\<rparr>"

subsection \<open>Example pages\<close>

text \<open>
  A page titled Inbox with one controller, created at address 0. Its favicon link is
  given as a parameter; the store holds \<open>vacant\<close> at the addresses where no
  controller has been created. The canvas prefixes the text it draws.
\<close>

definition typedLink :: element where
  "typedLink = [''rel'' \<mapsto> ''shortcut icon'', ''type'' \<mapsto> ''image/x-icon'',
                ''href'' \<mapsto> ''/favicon.ico'']"

definition untypedLink :: element where
  "untypedLink = [''rel'' \<mapsto> ''shortcut icon'', ''href'' \<mapsto> ''/favicon.ico'']"

definition vacant :: controller where
  "vacant =
    \<lparr>alertDelay = DEFAULT_DELAY,
     alertIcon = \<lparr>image = Str '''', type = Str ''''\<rparr>,
     alertTitle = '''',
     countdown = - 1,
     intervalID = None,
     originalIcon = \<lparr>image = Str '''', type = Str ''''\<rparr>,
     originalTitle = '''',
     showOriginal = True\<rparr>"

definition page :: "element option \<Rightarrow> world" where
  "page l =
    TabAlert 0
      \<lparr>doc = \<lparr>title = ''Inbox'', favicon = l\<rparr>,
       timers = [],
       instances = (\<lambda>c. vacant),
       render = (\<lambda>s. ''data:image/png;base64,'' @ s),
       effects = []\<rparr>"

definition config0 :: config where
  "config0 = \<lparr>message = None, icon_name = None, times = None, delay = None\<rparr>"

text \<open>A bounded alert: the message Done and the bell, twice, every 500 ms.\<close>

definition doneTwice :: config where
  "doneTwice =
    \<lparr>message = Some ''Done'', icon_name = Some ''bell'', times = Some 2, delay = Some 500\<rparr>"

section \<open>How each function changes the world\<close>

lemma titleWrites_append [simp]: "titleWrites (xs @ ys) = titleWrites xs @ titleWrites ys"
  by (induction xs rule: titleWrites.induct) simp_all

lemma withIcon_withIcon [simp]: "withIcon i (withIcon j l) = withIcon i l"
  by (simp add: withIcon_def setAttribute_def fun_eq_iff)

lemma modify_fields [simp]:
  "instances (modify c f w) = (instances w)(c := f (instances w c))"
  "timers (modify c f w) = timers w"
  "doc (modify c f w) = doc w"
  "render (modify c f w) = render w"
  "effects (modify c f w) = effects w"
  by (simp_all add: modify_def)

lemma clearInterval_fields [simp]:
  "instances (clearInterval x w) = instances w"
  "doc (clearInterval x w) = doc w"
  "render (clearInterval x w) = render w"
  "effects (clearInterval x w) = effects w"
  "timers (clearInterval x w) = (case x of None \<Rightarrow> timers w | Some h \<Rightarrow> (timers w)[h := None])"
  by (cases x; simp)+

lemma toggleFavicon_fields [simp]:
  "instances (toggleFavicon c w) = instances w"
  "timers (toggleFavicon c w) = timers w"
  "render (toggleFavicon c w) = render w"
  "title (doc (toggleFavicon c w)) = title (doc w)"
  "favicon (doc (toggleFavicon c w)) =
     map_option (withIcon (if showOriginal (instances w c) then originalIcon (instances w c)
                           else alertIcon (instances w c))) (favicon (doc w))"
  "titleWrites (effects (toggleFavicon c w)) = titleWrites (effects w)"
  by (simp_all add: toggleFavicon_def withIcon_def Let_def split: option.split)

lemma toggleTitle_fields [simp]:
  "instances (toggleTitle c w) = instances w"
  "timers (toggleTitle c w) = timers w"
  "render (toggleTitle c w) = render w"
  "favicon (doc (toggleTitle c w)) = favicon (doc w)"
  "title (doc (toggleTitle c w)) =
     (if showOriginal (instances w c) then originalTitle (instances w c)
      else alertTitle (instances w c))"
  "titleWrites (effects (toggleTitle c w)) = titleWrites (effects w) @
     [if showOriginal (instances w c) then originalTitle (instances w c)
      else alertTitle (instances w c)]"
  by (simp_all add: toggleTitle_def Let_def)

lemma stop_fields:
  "instances (stop c w) = (instances w)(c := (instances w c)\<lparr>showOriginal := True\<rparr>)"
  "timers (stop c w) = (case intervalID (instances w c) of None \<Rightarrow> timers w
                        | Some h \<Rightarrow> (timers w)[h := None])"
  "render (stop c w) = render w"
  "title (doc (stop c w)) = originalTitle (instances w c)"
  "favicon (doc (stop c w)) = map_option (withIcon (originalIcon (instances w c))) (favicon (doc w))"
  "titleWrites (effects (stop c w)) = titleWrites (effects w) @ [originalTitle (instances w c)]"
  by (simp_all add: stop_def Let_def)

lemma stop_stop_doc: "doc (stop c (stop c w)) = doc (stop c w)"
  by (rule document.equality) (simp_all add: stop_fields option.map_comp comp_def)

lemma stop_stop_instances: "instances (stop c (stop c w)) = instances (stop c w)"
  by (simp add: stop_fields)

lemma stop_stop_timers: "timers (stop c (stop c w)) = timers (stop c w)"
  by (simp add: stop_fields split: option.split)

text \<open>A tick that does not bring the countdown to zero.\<close>

lemma timerEvent_running:
  assumes "countdown (instances w c) \<noteq> 1"
  shows
    "instances (timerEvent c w) = (instances w)(c := (instances w c)
        \<lparr>showOriginal := \<not> showOriginal (instances w c),
         countdown := max (- 1) (countdown (instances w c) - 1)\<rparr>)"
    "timers (timerEvent c w) = timers w"
    "render (timerEvent c w) = render w"
    "title (doc (timerEvent c w)) =
       (if alertTitle (instances w c) = [] then title (doc w)
        else if showOriginal (instances w c) then alertTitle (instances w c)
        else originalTitle (instances w c))"
    "favicon (doc (timerEvent c w)) =
       (if image (alertIcon (instances w c)) = Str [] then favicon (doc w)
        else map_option (withIcon (if showOriginal (instances w c)
                                   then alertIcon (instances w c)
                                   else originalIcon (instances w c))) (favicon (doc w)))"
    "titleWrites (effects (timerEvent c w)) = titleWrites (effects w) @
       (if alertTitle (instances w c) = [] then []
        else [if showOriginal (instances w c) then alertTitle (instances w c)
              else originalTitle (instances w c)])"
  using assms by (simp_all add: timerEvent_def Let_def max_def)

text \<open>The tick that brings the countdown to zero.\<close>

lemma timerEvent_expiring:
  assumes "countdown (instances w c) = 1"
  shows
    "instances (timerEvent c w) = (instances w)(c := (instances w c)
        \<lparr>countdown := 0, showOriginal := True\<rparr>)"
    "timers (timerEvent c w) = (case intervalID (instances w c) of None \<Rightarrow> timers w
                                | Some h \<Rightarrow> (timers w)[h := None])"
    "render (timerEvent c w) = render w"
    "title (doc (timerEvent c w)) = originalTitle (instances w c)"
    "favicon (doc (timerEvent c w)) =
       map_option (withIcon (originalIcon (instances w c))) (favicon (doc w))"
    "titleWrites (effects (timerEvent c w)) = titleWrites (effects w) @
       (if alertTitle (instances w c) = [] then [originalTitle (instances w c)]
        else [originalTitle (instances w c), originalTitle (instances w c)])"
  using assms
  by (simp_all add: timerEvent_def Let_def stop_fields option.map_comp comp_def
        split: option.split)

lemma ticks_Suc_right: "ticks (Suc n) h w = fire h (ticks n h w)"
  by (induction n arbitrary: w) simp_all

lemma fire_active:
  "h < length (timers w) \<Longrightarrow> timers w ! h = Some (c, d) \<Longrightarrow> fire h w = timerEvent c w"
  by (simp add: fire_def)

lemma fire_cancelled:
  "h < length (timers w) \<Longrightarrow> timers w ! h = None \<Longrightarrow> fire h w = w"
  by (simp add: fire_def)

lemma ticks_cancelled:
  "h < length (timers w) \<Longrightarrow> timers w ! h = None \<Longrightarrow> ticks n h w = w"
  by (induction n) (simp_all add: fire_cancelled)

lemma ticks_add: "ticks (m + n) h w = ticks n h (ticks m h w)"
  by (induction m arbitrary: w) simp_all

text \<open>
  The timer elapses \<open>j\<close> times while the countdown stays away from zero: either
  it is not positive, or it is larger than \<open>j\<close>.
\<close>

lemma ticks_running:
  assumes act: "h < length (timers w)" "timers w ! h = Some (c, d)"
  shows "countdown (instances w c) \<le> 0 \<or> int j < countdown (instances w c) \<Longrightarrow>
    timers (ticks j h w) = timers w \<and>
    render (ticks j h w) = render w \<and>
    instances (ticks j h w) = (instances w)(c := (instances w c)
      \<lparr>countdown := (if j = 0 then countdown (instances w c)
                      else max (- 1) (countdown (instances w c) - int j)),
       showOriginal := (showOriginal (instances w c) \<noteq> odd j)\<rparr>) \<and>
    (\<forall>i. map_option (withIcon i) (favicon (doc (ticks j h w))) =
         map_option (withIcon i) (favicon (doc w))) \<and>
    (alertTitle (instances w c) = [] \<longrightarrow>
       title (doc (ticks j h w)) = title (doc w) \<and>
       titleWrites (effects (ticks j h w)) = titleWrites (effects w)) \<and>
    (alertTitle (instances w c) \<noteq> [] \<longrightarrow> 0 < j \<longrightarrow>
       title (doc (ticks j h w)) =
         (if showOriginal (instances w c) \<noteq> odd j then originalTitle (instances w c)
          else alertTitle (instances w c)))"
proof (induction j)
  case 0
  show ?case by simp
next
  case (Suc j)
  let ?k = "instances w c"
  let ?w = "ticks j h w"
  from Suc.prems have pre: "countdown ?k \<le> 0 \<or> int j < countdown ?k" by linarith
  note IH = Suc.IH [OF pre]
  from IH have tm: "timers ?w = timers w" by simp
  from IH have inst: "instances ?w c = ?k
      \<lparr>countdown := (if j = 0 then countdown ?k else max (- 1) (countdown ?k - int j)),
       showOriginal := (showOriginal ?k \<noteq> odd j)\<rparr>"
    by simp
  have step: "ticks (Suc j) h w = timerEvent c ?w"
    using act tm by (simp only: ticks_Suc_right) (simp add: fire_active)
  have ne: "countdown (instances ?w c) \<noteq> 1"
    using Suc.prems by (auto simp add: inst max_def)
  note run = timerEvent_running [OF ne]
  have cd: "max (- 1) (countdown (instances ?w c) - 1) = max (- 1) (countdown ?k - int (Suc j))"
    by (auto simp add: inst max_def)
  have A: "timers (ticks (Suc j) h w) = timers w"
    unfolding step by (simp add: run tm)
  have B: "render (ticks (Suc j) h w) = render w"
    unfolding step using IH by (simp add: run)
  have C: "instances (ticks (Suc j) h w) = (instances w)(c := ?k
      \<lparr>countdown := (if Suc j = 0 then countdown ?k
                      else max (- 1) (countdown ?k - int (Suc j))),
       showOriginal := (showOriginal ?k \<noteq> odd (Suc j))\<rparr>)"
    unfolding step run(1) cd using IH by (auto simp add: fun_eq_iff)
  have D: "map_option (withIcon i) (favicon (doc (ticks (Suc j) h w))) =
           map_option (withIcon i) (favicon (doc w))" for i
    unfolding step using IH by (simp add: run option.map_comp comp_def)
  have E: "alertTitle ?k = [] \<Longrightarrow> title (doc (ticks (Suc j) h w)) = title (doc w) \<and>
       titleWrites (effects (ticks (Suc j) h w)) = titleWrites (effects w)"
    unfolding step using IH by (simp add: run inst)
  have F: "alertTitle ?k \<noteq> [] \<Longrightarrow> title (doc (ticks (Suc j) h w)) =
         (if showOriginal ?k \<noteq> odd (Suc j) then originalTitle ?k else alertTitle ?k)"
    unfolding step by (auto simp add: run inst)
  from A B C D E F show ?case by blast
qed

section \<open>The world after alert, and the ticks that follow\<close>

lemma getOriginalFavicon_fields [simp]:
  "instances (snd (getOriginalFavicon w)) = instances w"
  "timers (snd (getOriginalFavicon w)) = timers w"
  "doc (snd (getOriginalFavicon w)) = doc w"
  "render (snd (getOriginalFavicon w)) = render w"
  "titleWrites (effects (snd (getOriginalFavicon w))) = titleWrites (effects w)"
  by (simp_all add: getOriginalFavicon_def split: option.split)

lemma getOriginalFavicon_modify [simp]:
  "fst (getOriginalFavicon (modify c f w)) = fst (getOriginalFavicon w)"
  by (simp add: getOriginalFavicon_def split: option.split)

lemma alert_object:
  "\<exists>p. alert c (ArgObject a) w = Returns (timerEvent c p) \<and>
     instances p = (instances w)(c := resolved c a w) \<and>
     timers p = timers w @ [Some (c, alertDelay (resolved c a w))] \<and>
     doc p = doc w \<and>
     render p = render w \<and>
     titleWrites (effects p) = titleWrites (effects w)"
  unfolding alert_def startTimer_def setInterval_def Let_def case_prod_beta argument.case
    fst_conv snd_conv
  apply (intro exI conjI)
       apply (rule refl)
      apply (rule ext)
      apply (auto simp add: resolved_def createImageFromText_def intro!: controller.equality
          split: option.split)
  done

lemma alert_Returns: "alert c (ArgObject a) w = Returns (afterAlert c a w)"
  using alert_object [of c a w] by (auto simp add: afterAlert_def)

lemma countdown_resolved_not_1: "countdown (resolved c a w) \<noteq> 1"
  by (cases "times a") (simp_all add: resolved_def, presburger)

text \<open>The world \<open>alert\<close> returns: the assignments, the new timer and the first tick.\<close>

lemma afterAlert_fields:
  "instances (afterAlert c a w) = (instances w)(c := (resolved c a w)
      \<lparr>countdown := max (- 1) (countdown (resolved c a w) - 1), showOriginal := False\<rparr>)"
  "timers (afterAlert c a w) = timers w @ [Some (c, alertDelay (resolved c a w))]"
  "render (afterAlert c a w) = render w"
  "title (doc (afterAlert c a w)) =
     (if alertTitle (resolved c a w) = [] then title (doc w) else alertTitle (resolved c a w))"
  "favicon (doc (afterAlert c a w)) =
     (if image (alertIcon (resolved c a w)) = Str [] then favicon (doc w)
      else map_option (withIcon (alertIcon (resolved c a w))) (favicon (doc w)))"
  "titleWrites (effects (afterAlert c a w)) = titleWrites (effects w) @
     (if alertTitle (resolved c a w) = [] then [] else [alertTitle (resolved c a w)])"
proof -
  obtain p where p: "alert c (ArgObject a) w = Returns (timerEvent c p)"
    "instances p = (instances w)(c := resolved c a w)"
    "timers p = timers w @ [Some (c, alertDelay (resolved c a w))]"
    "doc p = doc w" "render p = render w"
    "titleWrites (effects p) = titleWrites (effects w)"
    using alert_object [of c a w] by blast
  have eq: "afterAlert c a w = timerEvent c p"
    by (simp add: afterAlert_def p(1))
  have ne: "countdown (instances p c) \<noteq> 1"
    by (simp add: p(2) countdown_resolved_not_1)
  note run = timerEvent_running [OF ne]
  have sh: "showOriginal (resolved c a w)" by (simp add: resolved_def)
  show "instances (afterAlert c a w) = (instances w)(c := (resolved c a w)
      \<lparr>countdown := max (- 1) (countdown (resolved c a w) - 1), showOriginal := False\<rparr>)"
    unfolding eq run(1) by (auto simp add: p(2) sh fun_eq_iff)
  show "timers (afterAlert c a w) = timers w @ [Some (c, alertDelay (resolved c a w))]"
    unfolding eq run(2) by (rule p(3))
  show "render (afterAlert c a w) = render w"
    unfolding eq run(3) by (rule p(5))
  show "title (doc (afterAlert c a w)) =
     (if alertTitle (resolved c a w) = [] then title (doc w) else alertTitle (resolved c a w))"
    unfolding eq run(4) by (simp add: p sh)
  show "favicon (doc (afterAlert c a w)) =
     (if image (alertIcon (resolved c a w)) = Str [] then favicon (doc w)
      else map_option (withIcon (alertIcon (resolved c a w))) (favicon (doc w)))"
    unfolding eq run(5) by (simp add: p sh)
  show "titleWrites (effects (afterAlert c a w)) = titleWrites (effects w) @
     (if alertTitle (resolved c a w) = [] then [] else [alertTitle (resolved c a w)])"
    unfolding eq run(6) by (simp add: p sh)
qed

lemma ticks_expiring:
  assumes act: "h < length (timers w)" "timers w ! h = Some (c, d)"
    and cd: "countdown (instances w c) = int (Suc m)"
    and id: "intervalID (instances w c) = Some h"
  shows
    "timers (ticks (Suc m) h w) = (timers w)[h := None]"
    "render (ticks (Suc m) h w) = render w"
    "instances (ticks (Suc m) h w) = (instances w)(c := (instances w c)
        \<lparr>countdown := 0, showOriginal := True\<rparr>)"
    "title (doc (ticks (Suc m) h w)) = originalTitle (instances w c)"
    "favicon (doc (ticks (Suc m) h w)) =
       map_option (withIcon (originalIcon (instances w c))) (favicon (doc w))"
    "alertTitle (instances w c) = [] \<Longrightarrow> titleWrites (effects (ticks (Suc m) h w)) =
       titleWrites (effects w) @ [originalTitle (instances w c)]"
proof -
  let ?k = "instances w c"
  let ?w = "ticks m h w"
  have pre: "countdown ?k \<le> 0 \<or> int m < countdown ?k" by (simp add: cd)
  note R = ticks_running [OF act pre]
  from R have tm: "timers ?w = timers w" by simp
  from R have inst: "instances ?w c = ?k
      \<lparr>countdown := (if m = 0 then countdown ?k else max (- 1) (countdown ?k - int m)),
       showOriginal := (showOriginal ?k \<noteq> odd m)\<rparr>"
    by simp
  have step: "ticks (Suc m) h w = timerEvent c ?w"
    using act tm by (simp only: ticks_Suc_right) (simp add: fire_active)
  have one: "countdown (instances ?w c) = 1"
    by (simp add: inst cd)
  note E = timerEvent_expiring [OF one]
  show "timers (ticks (Suc m) h w) = (timers w)[h := None]"
    unfolding step E(2) by (simp add: inst id tm)
  show "render (ticks (Suc m) h w) = render w"
    unfolding step E(3) using R by simp
  show "instances (ticks (Suc m) h w) = (instances w)(c := ?k
        \<lparr>countdown := 0, showOriginal := True\<rparr>)"
    unfolding step E(1) using R by (auto simp add: fun_eq_iff)
  show "title (doc (ticks (Suc m) h w)) = originalTitle ?k"
    unfolding step E(4) by (simp add: inst)
  show "favicon (doc (ticks (Suc m) h w)) = map_option (withIcon (originalIcon ?k)) (favicon (doc w))"
    unfolding step E(5) using R by (simp add: inst)
  show "alertTitle ?k = [] \<Longrightarrow> titleWrites (effects (ticks (Suc m) h w)) =
       titleWrites (effects w) @ [originalTitle ?k]"
    unfolding step E(6) using R by (simp add: inst)
qed

lemma afterAlert_timer:
  "length (timers w) < length (timers (afterAlert c a w))"
  "timers (afterAlert c a w) ! length (timers w) = Some (c, alertDelay (resolved c a w))"
  "intervalID (instances (afterAlert c a w) c) = Some (length (timers w))"
  "alertDelay (instances (afterAlert c a w) c) = alertDelay (resolved c a w)"
  "alertTitle (instances (afterAlert c a w) c) = alertTitle (resolved c a w)"
  "originalTitle (instances (afterAlert c a w) c) = title (doc w)"
  "originalIcon (instances (afterAlert c a w) c) = fst (getOriginalFavicon w)"
  "countdown (instances (afterAlert c a w) c) = max (- 1) (countdown (resolved c a w) - 1)"
  "showOriginal (instances (afterAlert c a w) c) = False"
  by (simp_all add: afterAlert_fields resolved_def)

lemma resolved_fields [simp]:
  "originalTitle (resolved c a w) = title (doc w)"
  "originalIcon (resolved c a w) = fst (getOriginalFavicon w)"
  "intervalID (resolved c a w) = Some (length (timers w))"
  "showOriginal (resolved c a w)"
  by (simp_all add: resolved_def)

lemma withIcon_afterAlert:
  "map_option (withIcon i) (favicon (doc (afterAlert c a w))) =
   map_option (withIcon i) (favicon (doc w))"
  by (simp add: afterAlert_fields option.map_comp comp_def)

text \<open>A countdown that starts at zero or below never reaches zero.\<close>

lemma alert_never_expires:
  assumes "countdown (resolved c a w) \<le> 0"
  shows
    "timers (ticks j (length (timers w)) (afterAlert c a w)) = timers (afterAlert c a w)"
    "instances (ticks j (length (timers w)) (afterAlert c a w)) c =
       (instances (afterAlert c a w) c)\<lparr>countdown := - 1, showOriginal := odd j\<rparr>"
    "alertTitle (resolved c a w) = [] \<Longrightarrow>
       title (doc (ticks j (length (timers w)) (afterAlert c a w))) = title (doc w) \<and>
       titleWrites (effects (ticks j (length (timers w)) (afterAlert c a w))) =
         titleWrites (effects w)"
proof -
  let ?h = "length (timers w)"
  let ?w1 = "afterAlert c a w"
  have cd: "countdown (instances ?w1 c) = - 1"
    using assms by (simp add: afterAlert_timer max_def)
  have pre: "countdown (instances ?w1 c) \<le> 0 \<or> int j < countdown (instances ?w1 c)"
    by (simp add: cd)
  note R = ticks_running [OF afterAlert_timer(1) afterAlert_timer(2) pre]
  show "timers (ticks j ?h ?w1) = timers ?w1" using R by simp
  have I: "instances (ticks j ?h ?w1) c = (instances ?w1 c)
      \<lparr>countdown := (if j = 0 then countdown (instances ?w1 c)
                      else max (- 1) (countdown (instances ?w1 c) - int j)),
       showOriginal := (showOriginal (instances ?w1 c) \<noteq> odd j)\<rparr>"
    using R by simp
  show "instances (ticks j ?h ?w1) c = (instances ?w1 c)\<lparr>countdown := - 1, showOriginal := odd j\<rparr>"
    unfolding I cd afterAlert_timer(9) by (simp add: max_def)
  show "alertTitle (resolved c a w) = [] \<Longrightarrow>
       title (doc (ticks j ?h ?w1)) = title (doc w) \<and>
       titleWrites (effects (ticks j ?h ?w1)) = titleWrites (effects w)"
    using R by (simp add: afterAlert_timer afterAlert_fields)
qed

text \<open>A countdown that starts at \<open>2n\<close>, for a positive \<open>n\<close>: the ticks before the last.\<close>

lemma alert_counting:
  assumes cd0: "countdown (resolved c a w) = 2 * int n" and n: "0 < n" and j: "j < 2 * n - 1"
  shows
    "timers (ticks j (length (timers w)) (afterAlert c a w)) = timers (afterAlert c a w)"
    "instances (ticks j (length (timers w)) (afterAlert c a w)) c =
       (instances (afterAlert c a w) c)
         \<lparr>countdown := 2 * int n - 1 - int j, showOriginal := odd j\<rparr>"
    "title (doc (ticks j (length (timers w)) (afterAlert c a w))) =
       (if alertTitle (resolved c a w) = [] \<or> odd j then title (doc w)
        else alertTitle (resolved c a w))"
    "alertTitle (resolved c a w) = [] \<Longrightarrow>
       titleWrites (effects (ticks j (length (timers w)) (afterAlert c a w))) =
         titleWrites (effects w)"
proof -
  let ?h = "length (timers w)"
  let ?w1 = "afterAlert c a w"
  have cd: "countdown (instances ?w1 c) = 2 * int n - 1"
    using cd0 n by (simp add: afterAlert_timer max_def)
  have pre: "countdown (instances ?w1 c) \<le> 0 \<or> int j < countdown (instances ?w1 c)"
    using j by (simp add: cd) linarith
  note R = ticks_running [OF afterAlert_timer(1) afterAlert_timer(2) pre]
  show "timers (ticks j ?h ?w1) = timers ?w1" using R by simp
  have I: "instances (ticks j ?h ?w1) c = (instances ?w1 c)
      \<lparr>countdown := (if j = 0 then countdown (instances ?w1 c)
                      else max (- 1) (countdown (instances ?w1 c) - int j)),
       showOriginal := (showOriginal (instances ?w1 c) \<noteq> odd j)\<rparr>"
    using R by simp
  have m: "max (- 1) (2 * int n - 1 - int j) = 2 * int n - 1 - int j"
    using j by (simp add: max_def)
  show "instances (ticks j ?h ?w1) c =
      (instances ?w1 c)\<lparr>countdown := 2 * int n - 1 - int j, showOriginal := odd j\<rparr>"
    unfolding I cd afterAlert_timer(9) m by simp
  show "title (doc (ticks j ?h ?w1)) =
       (if alertTitle (resolved c a w) = [] \<or> odd j then title (doc w)
        else alertTitle (resolved c a w))"
  proof (cases "j = 0")
    case True
    then show ?thesis by (simp add: afterAlert_fields)
  next
    case False
    then show ?thesis using R by (auto simp add: afterAlert_timer afterAlert_fields)
  qed
  show "alertTitle (resolved c a w) = [] \<Longrightarrow>
       titleWrites (effects (ticks j ?h ?w1)) = titleWrites (effects w)"
    using R by (simp add: afterAlert_timer afterAlert_fields)
qed

text \<open>The same countdown: the last tick, and the timer elapsing after it.\<close>

lemma alert_expiring:
  assumes cd0: "countdown (resolved c a w) = 2 * int n" and n: "0 < n"
  shows
    "timers (ticks (2 * n - 1) (length (timers w)) (afterAlert c a w)) =
       (timers (afterAlert c a w))[length (timers w) := None]"
    "instances (ticks (2 * n - 1) (length (timers w)) (afterAlert c a w)) c =
       (instances (afterAlert c a w) c)\<lparr>countdown := 0, showOriginal := True\<rparr>"
    "title (doc (ticks (2 * n - 1) (length (timers w)) (afterAlert c a w))) = title (doc w)"
    "favicon (doc (ticks (2 * n - 1) (length (timers w)) (afterAlert c a w))) =
       map_option (withIcon (fst (getOriginalFavicon w))) (favicon (doc w))"
    "alertTitle (resolved c a w) = [] \<Longrightarrow>
       titleWrites (effects (ticks (2 * n - 1) (length (timers w)) (afterAlert c a w))) =
         titleWrites (effects w) @ [title (doc w)]"
    "2 * n - 1 \<le> j \<Longrightarrow>
       ticks j (length (timers w)) (afterAlert c a w) =
       ticks (2 * n - 1) (length (timers w)) (afterAlert c a w)"
proof -
  let ?h = "length (timers w)"
  let ?w1 = "afterAlert c a w"
  obtain m where m: "2 * n - 1 = Suc m" using n by (cases "2 * n - 1") auto
  have cd: "countdown (instances ?w1 c) = int (Suc m)"
    using cd0 n m by (simp add: afterAlert_timer max_def)
  note E = ticks_expiring [OF afterAlert_timer(1) afterAlert_timer(2) cd afterAlert_timer(3)]
  show T: "timers (ticks (2 * n - 1) ?h ?w1) = (timers ?w1)[?h := None]"
    unfolding m by (rule E(1))
  show "instances (ticks (2 * n - 1) ?h ?w1) c =
       (instances ?w1 c)\<lparr>countdown := 0, showOriginal := True\<rparr>"
    unfolding m E(3) by simp
  show "title (doc (ticks (2 * n - 1) ?h ?w1)) = title (doc w)"
    unfolding m E(4) by (rule afterAlert_timer(6))
  show "favicon (doc (ticks (2 * n - 1) ?h ?w1)) =
       map_option (withIcon (fst (getOriginalFavicon w))) (favicon (doc w))"
    unfolding m E(5) afterAlert_timer(7) by (rule withIcon_afterAlert)
  show "alertTitle (resolved c a w) = [] \<Longrightarrow>
       titleWrites (effects (ticks (2 * n - 1) ?h ?w1)) = titleWrites (effects w) @ [title (doc w)]"
    unfolding m using E(6) by (simp add: afterAlert_timer afterAlert_fields)
  show "ticks j ?h ?w1 = ticks (2 * n - 1) ?h ?w1" if "2 * n - 1 \<le> j"
  proof -
    from that obtain d where d: "j = (2 * n - 1) + d" using le_Suc_ex by blast
    have len: "?h < length (timers (ticks (2 * n - 1) ?h ?w1))"
      unfolding T using afterAlert_timer(1) [of w c a] by simp
    have off: "timers (ticks (2 * n - 1) ?h ?w1) ! ?h = None"
      unfolding T using afterAlert_timer(1) [of w c a] by simp
    show ?thesis unfolding d ticks_add by (rule ticks_cancelled [OF len off])
  qed
qed

lemma alert_other_instances:
  "c' \<noteq> c \<Longrightarrow> instances (world_of (alert c args w)) c' = instances w c'"
  by (cases args)
    (simp_all add: alert_Returns afterAlert_fields, simp_all add: alert_def Let_def case_prod_beta)

lemma page_fields [simp]:
  "timers (page l) = []"
  "title (doc (page l)) = ''Inbox''"
  "favicon (doc (page l)) = l"
  "effects (page l) = []"
  "instances (page l) 0 = initial (page l)"
  "c \<noteq> 0 \<Longrightarrow> instances (page l) c = vacant"
  by (simp_all add: page_def TabAlert_def initial_def)

text \<open>
  Whether the countdown ever reaches zero: it does when \<open>times\<close> is a positive
  integer, and it does not when \<open>times\<close> is omitted, zero or negative.
\<close>

lemma alert_countdown_cases:
  obtains (never) "countdown (resolved c a w) \<le> 0"
  | (counts) n where "0 < n" "countdown (resolved c a w) = 2 * int n" "times a = Some (int n)"
proof (cases "times a")
  case None
  then have "countdown (resolved c a w) \<le> 0" by (simp add: resolved_def)
  then show ?thesis by (rule never)
next
  case (Some k)
  show ?thesis
  proof (cases "0 < k")
    case True
    then have "0 < nat k" "countdown (resolved c a w) = 2 * int (nat k)" "times a = Some (int (nat k))"
      using Some by (simp_all add: resolved_def)
    then show ?thesis by (rule counts)
  next
    case False
    then have "countdown (resolved c a w) \<le> 0" using Some by (simp add: resolved_def)
    then show ?thesis by (rule never)
  qed
qed

lemma alert_never_expires_summary:
  assumes "countdown (resolved c a w) \<le> 0"
  shows "let h = length (timers w); wj = ticks j h (afterAlert c a w) in
     intervalID (instances wj c) = Some h \<and>
     timers wj ! h = Some (c, alertDelay (instances wj c)) \<and>
     countdown (instances wj c) = - 1 \<and>
     showOriginal (instances wj c) = odd j \<and>
     timers (stop c wj) ! h = None"
proof -
  note N = alert_never_expires [OF assms, of j]
  have "timers (stop c (ticks j (length (timers w)) (afterAlert c a w))) ! length (timers w) = None"
    using afterAlert_timer(1) [of w c a]
    by (simp add: stop_fields N(1,2) afterAlert_timer(3))
  then show ?thesis
    unfolding Let_def by (simp add: N(1,2) afterAlert_timer)
qed

text \<open>
  Whatever the number of ticks, the closure keeps the captured title and icon, and
  writing an icon to the favicon element gives the same element as writing it to the
  element of the page \<open>alert\<close> was called on.
\<close>

lemma ticks_keep_captured:
  "originalTitle (instances (ticks j (length (timers w)) (afterAlert c a w)) c) = title (doc w)"
  "originalIcon (instances (ticks j (length (timers w)) (afterAlert c a w)) c) =
     fst (getOriginalFavicon w)"
  "intervalID (instances (ticks j (length (timers w)) (afterAlert c a w)) c) =
     Some (length (timers w))"
  "map_option (withIcon i) (favicon (doc (ticks j (length (timers w)) (afterAlert c a w)))) =
     map_option (withIcon i) (favicon (doc w))"
proof -
  let ?h = "length (timers w)"
  let ?w1 = "afterAlert c a w"
  have run: "originalTitle (instances (ticks j ?h ?w1) c) = title (doc w) \<and>
      originalIcon (instances (ticks j ?h ?w1) c) = fst (getOriginalFavicon w) \<and>
      intervalID (instances (ticks j ?h ?w1) c) = Some ?h \<and>
      map_option (withIcon i) (favicon (doc (ticks j ?h ?w1))) =
        map_option (withIcon i) (favicon (doc w))"
    if pre: "countdown (instances ?w1 c) \<le> 0 \<or> int j < countdown (instances ?w1 c)" for j
  proof -
    note R = ticks_running [OF afterAlert_timer(1) afterAlert_timer(2) pre]
    from R have "instances (ticks j ?h ?w1) c = (instances ?w1 c)
        \<lparr>countdown := (if j = 0 then countdown (instances ?w1 c)
                        else max (- 1) (countdown (instances ?w1 c) - int j)),
         showOriginal := (showOriginal (instances ?w1 c) \<noteq> odd j)\<rparr>"
      by simp
    moreover from R have "map_option (withIcon i) (favicon (doc (ticks j ?h ?w1))) =
        map_option (withIcon i) (favicon (doc ?w1))"
      by blast
    ultimately show ?thesis
      by (simp add: afterAlert_timer withIcon_afterAlert)
  qed
  have all: "originalTitle (instances (ticks j ?h ?w1) c) = title (doc w) \<and>
      originalIcon (instances (ticks j ?h ?w1) c) = fst (getOriginalFavicon w) \<and>
      intervalID (instances (ticks j ?h ?w1) c) = Some ?h \<and>
      map_option (withIcon i) (favicon (doc (ticks j ?h ?w1))) =
        map_option (withIcon i) (favicon (doc w))"
  proof (cases rule: alert_countdown_cases [of c a w])
    case never
    then have "countdown (instances ?w1 c) \<le> 0" by (simp add: afterAlert_timer max_def)
    then show ?thesis using run by blast
  next
    case (counts n)
    have cd: "countdown (instances ?w1 c) = 2 * int n - 1"
      using counts by (simp add: afterAlert_timer max_def)
    show ?thesis
    proof (cases "j < 2 * n - 1")
      case True
      then have "int j < countdown (instances ?w1 c)" unfolding cd by linarith
      then show ?thesis using run by blast
    next
      case False
      then have le: "2 * n - 1 \<le> j" by simp
      show ?thesis
        unfolding alert_expiring(6) [OF counts(2) counts(1) le]
          alert_expiring(2,4) [OF counts(2) counts(1)]
        by (simp add: afterAlert_timer option.map_comp comp_def)
    qed
  qed
  from all show "originalTitle (instances (ticks j ?h ?w1) c) = title (doc w)" by blast
  from all show "originalIcon (instances (ticks j ?h ?w1) c) = fst (getOriginalFavicon w)" by blast
  from all show "intervalID (instances (ticks j ?h ?w1) c) = Some ?h" by blast
  from all show "map_option (withIcon i) (favicon (doc (ticks j ?h ?w1))) =
     map_option (withIcon i) (favicon (doc w))" by blast
qed

text \<open>
  What \<open>stop\<close> does restore, after \<open>alert\<close> and any number of ticks: the flag, the
  title, and, on the favicon element, the string conversions of the captured values.
\<close>

lemma stop_after_alert:
  "showOriginal (instances (stop c (ticks j (length (timers w)) (afterAlert c a w))) c)"
  "title (doc (stop c (ticks j (length (timers w)) (afterAlert c a w)))) = title (doc w)"
  "favicon (doc (stop c (ticks j (length (timers w)) (afterAlert c a w)))) =
     map_option (withIcon (fst (getOriginalFavicon w))) (favicon (doc w))"
  by (simp_all add: stop_fields ticks_keep_captured)

text \<open>An attribute that is present is captured and written back unchanged.\<close>

lemma withIcon_captured:
  assumes "favicon (doc w) = Some l" and "l ''type'' = Some t" and "l ''href'' = Some r"
  shows "withIcon (fst (getOriginalFavicon w)) l = l"
  using assms
  by (auto simp add: getOriginalFavicon_def withIcon_def setAttribute_def getAttribute_def
      fun_eq_iff)

section \<open>The claims\<close>

text \<open>
  Conventions. A controller lives at an address \<open>c\<close> of the store. \<open>afterAlert c a w\<close> is
  the world \<open>alert(a)\<close> returns in: it includes the first half-toggle, which \<open>_startTimer\<close>
  performs itself by calling \<open>_timerEvent\<close>. The timer that this call installs has the
  handle \<open>length (timers w)\<close>, and \<open>ticks j h\<close> lets it elapse \<open>j\<close> times. The
  statements hold from every world \<open>w\<close> and follow that timer; what a timer left behind
  by an earlier \<open>alert\<close> does is the subject of C4.
\<close>



text \<open>
  C2. The claim: \<open>stop\<close>, called at any point after \<open>alert\<close>, leaves the title and
  the \<open>href\<close> and \<open>type\<close> attributes of the favicon exactly equal to the values
  captured by that \<open>alert\<close>. The code restores the title and the flag (lemma
  \<open>stop_after_alert\<close>), and each attribute that was present (lemma
  \<open>withIcon_captured\<close>). It does not restore an attribute that was absent: on a page
  whose favicon link has no \<open>type\<close> attribute, \<open>getAttribute\<close> captures \<open>null\<close>, and
  \<open>stop\<close> passes that \<open>null\<close> to \<open>setAttribute\<close>, which leaves the link with the
  attribute \<open>type="null"\<close>. The theorem evaluates the code on such a page.
\<close>

theorem stop_writes_null_for_absent_type:
  "favicon (doc (page (Some untypedLink))) = Some untypedLink \<and>
   getAttribute untypedLink ''type'' = Null \<and>
   type (originalIcon (instances (afterAlert 0 config0 (page (Some untypedLink))) 0)) = Null \<and>
   favicon (doc (stop 0 (afterAlert 0 config0 (page (Some untypedLink))))) =
     Some (untypedLink(''type'' \<mapsto> ''null'')) \<and>
   getAttribute (untypedLink(''type'' \<mapsto> ''null'')) ''type'' = Str ''null''"
proof -
  have cap: "fst (getOriginalFavicon (page (Some untypedLink))) =
      \<lparr>image = Str ''/favicon.ico'', type = Null\<rparr>"
    by (simp add: getOriginalFavicon_def getAttribute_def untypedLink_def)
  have "withIcon \<lparr>image = Str ''/favicon.ico'', type = Null\<rparr> untypedLink =
      untypedLink(''type'' \<mapsto> ''null'')"
    by (simp add: withIcon_def setAttribute_def untypedLink_def fun_eq_iff)
  then show ?thesis
    by (simp add: stop_fields afterAlert_timer afterAlert_fields cap resolved_def config0_def
        getAttribute_def) (simp add: untypedLink_def)
qed

text \<open>
  C3. When \<open>times\<close> is omitted no automatic stop ever occurs. After any number \<open>j\<close> of
  ticks the timer installed by \<open>alert\<close> is still active and is still the one the
  controller holds, the countdown stands at \<open>-1\<close> (so no tick found it at zero, the
  only condition under which a tick calls \<open>stop\<close>), and the flag keeps alternating.
  An explicit \<open>stop\<close> cancels the timer.
\<close>

theorem alert_without_times_never_stops:
  assumes "times a = None"
  shows "let h = length (timers w); wj = ticks j h (afterAlert c a w) in
     intervalID (instances wj c) = Some h \<and>
     timers wj ! h = Some (c, alertDelay (instances wj c)) \<and>
     countdown (instances wj c) = - 1 \<and>
     showOriginal (instances wj c) = odd j \<and>
     timers (stop c wj) ! h = None"
proof (rule alert_never_expires_summary)
  show "countdown (resolved c a w) \<le> 0" using assms by (simp add: resolved_def)
qed

theorem alert_without_times_never_stops_witness:
  "times config0 = None \<and>
   timers (ticks 100 0 (afterAlert 0 config0 (page (Some typedLink)))) ! 0 = Some (0, 1000) \<and>
   countdown (instances (ticks 100 0 (afterAlert 0 config0 (page (Some typedLink)))) 0) = - 1 \<and>
   timers (stop 0 (ticks 100 0 (afterAlert 0 config0 (page (Some typedLink))))) ! 0 = None"
proof -
  have t: "times config0 = None" by (simp add: config0_def)
  show ?thesis
    using alert_without_times_never_stops [OF t, where j = 100 and w = "page (Some typedLink)" and c = 0] t
      alert_never_expires(2) [where j = 100 and w = "page (Some typedLink)" and c = 0 and a = config0]
    by (simp add: Let_def afterAlert_timer resolved_def config0_def DEFAULT_DELAY_def)
qed

text \<open>
  C4. The claim: \<open>alert\<close> cancels the timer of a previous \<open>alert\<close> before it installs a
  new one, so that a controller never has two active timers. The code has no
  \<open>clearInterval\<close> in \<open>alert\<close> or \<open>_startTimer\<close>: the theorem evaluates two calls of
  \<open>alert\<close> in a row. Both timers are active, the controller holds the handle of the
  second only, and \<open>stop\<close> cancels that one: the first stays active, and when it
  elapses after the \<open>stop\<close> it calls \<open>_timerEvent\<close>, which flips the flag again.
\<close>

theorem second_alert_leaves_first_timer:
  "activeTimers 0 (afterAlert 0 config0 (page (Some typedLink))) = [0] \<and>
   activeTimers 0 (afterAlert 0 config0 (afterAlert 0 config0 (page (Some typedLink)))) = [0, 1] \<and>
   intervalID (instances (afterAlert 0 config0 (afterAlert 0 config0 (page (Some typedLink)))) 0) =
     Some 1 \<and>
   activeTimers 0 (stop 0 (afterAlert 0 config0 (afterAlert 0 config0 (page (Some typedLink))))) = [0] \<and>
   showOriginal (instances
     (stop 0 (afterAlert 0 config0 (afterAlert 0 config0 (page (Some typedLink))))) 0) \<and>
   \<not> showOriginal (instances
     (fire 0 (stop 0 (afterAlert 0 config0 (afterAlert 0 config0 (page (Some typedLink)))))) 0)"
proof -
  let ?w = "stop 0 (afterAlert 0 config0 (afterAlert 0 config0 (page (Some typedLink))))"
  have tm: "timers ?w = [Some (0, 1000), None]"
    by (simp add: afterAlert_fields afterAlert_timer stop_fields resolved_def config0_def
        DEFAULT_DELAY_def)
  have cd: "countdown (instances ?w 0) \<noteq> 1"
    by (simp add: afterAlert_fields stop_fields resolved_def config0_def)
  have "fire 0 ?w = timerEvent 0 ?w"
    by (rule fire_active [where d = 1000 and c = 0]) (simp_all add: tm)
  then have "\<not> showOriginal (instances (fire 0 ?w) 0)"
    by (simp add: timerEvent_running(1) [OF cd] stop_fields)
  then show ?thesis
    by (simp add: activeTimers_def afterAlert_fields afterAlert_timer stop_fields upt_rec)
qed



text \<open>
  C6, as amended. When \<open>message\<close> is omitted, no tick writes the title except the tick
  on which the countdown expires: there the automatic \<open>stop\<close> writes the title
  captured by \<open>alert\<close>, once. So the title the document shows is, after any number
  \<open>j\<close> of ticks, the one it showed when \<open>alert\<close> was called; and the list of values
  written to it has grown by that one title when \<open>times\<close> is a positive \<open>n\<close> and the
  tick number \<open>2n - 1\<close> of the timer has happened, and has not grown otherwise. The
  claim that the expiring tick writes nothing fails (the counterexample).
\<close>

theorem alert_without_message_title:
  assumes "message a = None"
  shows "let h = length (timers w); wj = ticks j h (afterAlert c a w) in
     title (doc wj) = title (doc w) \<and>
     titleWrites (effects wj) = titleWrites (effects w) @
       (case times a of
          None \<Rightarrow> []
        | Some n \<Rightarrow> if 0 < n \<and> 2 * n - 1 \<le> int j then [title (doc w)] else [])"
proof -
  have msg: "alertTitle (resolved c a w) = []"
    using assms by (simp add: resolved_def)
  show ?thesis
  proof (cases rule: alert_countdown_cases [of c a w])
    case never
    then have "case times a of None \<Rightarrow> True | Some n \<Rightarrow> n \<le> 0"
      by (cases "times a") (simp_all add: resolved_def)
    then show ?thesis
      unfolding Let_def using alert_never_expires(3) [OF never msg, of j]
      by (cases "times a") auto
  next
    case (counts n)
    show ?thesis
    proof (cases "j < 2 * n - 1")
      case True
      then have "\<not> 2 * int n - 1 \<le> int j" by linarith
      then show ?thesis
        unfolding Let_def
        using alert_counting(3,4) [OF counts(2) counts(1) True] msg
        by (simp add: counts(3))
    next
      case False
      then have le: "2 * n - 1 \<le> j" by simp
      then have "2 * int n - 1 \<le> int j" by linarith
      then show ?thesis
        unfolding Let_def alert_expiring(6) [OF counts(2) counts(1) le]
        using alert_expiring(3,5) [OF counts(2) counts(1)] msg counts(1)
        by (simp add: counts(3))
    qed
  qed
qed

theorem alert_without_message_title_witness:
  "message (config0\<lparr>times := Some 1\<rparr>) = None \<and>
   title (doc (ticks 1 0 (afterAlert 0 (config0\<lparr>times := Some 1\<rparr>) (page (Some typedLink))))) =
     ''Inbox'' \<and>
   titleWrites (effects (ticks 0 0 (afterAlert 0 (config0\<lparr>times := Some 1\<rparr>) (page (Some typedLink))))) =
     [] \<and>
   titleWrites (effects (ticks 5 0 (afterAlert 0 (config0\<lparr>times := Some 1\<rparr>) (page (Some typedLink))))) =
     [''Inbox'']"
proof -
  have m: "message (config0\<lparr>times := Some 1\<rparr>) = None" by (simp add: config0_def)
  show ?thesis
    using alert_without_message_title [OF m, where j = 1 and w = "page (Some typedLink)" and c = 0]
      alert_without_message_title [OF m, where j = 0 and w = "page (Some typedLink)" and c = 0]
      alert_without_message_title [OF m, where j = 5 and w = "page (Some typedLink)" and c = 0]
    by (simp add: Let_def m)
qed

theorem expiry_tick_writes_title:
  "message (config0\<lparr>times := Some 1\<rparr>) = None \<and>
   titleWrites (effects (afterAlert 0 (config0\<lparr>times := Some 1\<rparr>) (page (Some typedLink)))) = [] \<and>
   titleWrites (effects (fire 0 (afterAlert 0 (config0\<lparr>times := Some 1\<rparr>) (page (Some typedLink))))) =
     [''Inbox'']"
proof -
  let ?a = "config0\<lparr>times := Some 1\<rparr>"
  let ?w = "page (Some typedLink)"
  have cd: "countdown (resolved 0 ?a ?w) = 2 * int 1" by (simp add: resolved_def)
  have msg: "alertTitle (resolved 0 ?a ?w) = []" by (simp add: resolved_def config0_def)
  have "titleWrites (effects (ticks (2 * 1 - 1) (length (timers ?w)) (afterAlert 0 ?a ?w))) =
      titleWrites (effects ?w) @ [title (doc ?w)]"
    by (rule alert_expiring(5) [OF cd _ msg]) simp
  then show ?thesis
    using msg by (simp add: afterAlert_fields config0_def)
qed



text \<open>
  C8. \<open>stop\<close> is idempotent. It is a total function, so no call of it raises. A
  second call in a row leaves the document (title and favicon attributes), the state of
  every controller and the timers exactly as the first call left them: all it does is
  write again the title that is already displayed.
\<close>

theorem stop_idempotent:
  "doc (stop c (stop c w)) = doc (stop c w) \<and>
   instances (stop c (stop c w)) = instances (stop c w) \<and>
   timers (stop c (stop c w)) = timers (stop c w) \<and>
   render (stop c (stop c w)) = render (stop c w) \<and>
   titleWrites (effects (stop c (stop c w))) =
     titleWrites (effects (stop c w)) @ [title (doc (stop c w))]"
  using stop_stop_doc [of c w] stop_stop_instances [of c w] stop_stop_timers [of c w]
  by (simp add: stop_fields(1,3,4,6))

text \<open>
  C9. With \<open>times = 0\<close> the alert does not stop at once and never stops by itself: the
  countdown is set to \<open>0\<close>, the tick inside \<open>alert\<close> takes it to \<open>-1\<close>, where every
  later tick pins it, so it is never found at zero. After any number \<open>j\<close> of ticks
  (\<open>j = 0\<close> is the moment \<open>alert\<close> returns) the timer is active and the flag keeps
  alternating, until an explicit \<open>stop\<close> cancels the timer.
\<close>

theorem alert_times_zero_never_stops:
  assumes "times a = Some 0"
  shows "let h = length (timers w); wj = ticks j h (afterAlert c a w) in
     intervalID (instances wj c) = Some h \<and>
     timers wj ! h = Some (c, alertDelay (instances wj c)) \<and>
     countdown (instances wj c) = - 1 \<and>
     showOriginal (instances wj c) = odd j \<and>
     timers (stop c wj) ! h = None"
proof (rule alert_never_expires_summary)
  show "countdown (resolved c a w) \<le> 0" using assms by (simp add: resolved_def)
qed

theorem alert_times_zero_never_stops_witness:
  "times (config0\<lparr>times := Some 0\<rparr>) = Some 0 \<and>
   timers (afterAlert 0 (config0\<lparr>times := Some 0\<rparr>) (page (Some typedLink))) ! 0 =
     Some (0, 1000) \<and>
   countdown (instances (afterAlert 0 (config0\<lparr>times := Some 0\<rparr>) (page (Some typedLink))) 0) = - 1 \<and>
   timers (ticks 7 0 (afterAlert 0 (config0\<lparr>times := Some 0\<rparr>) (page (Some typedLink)))) ! 0 =
     Some (0, 1000) \<and>
   showOriginal (instances (ticks 7 0 (afterAlert 0 (config0\<lparr>times := Some 0\<rparr>) (page (Some typedLink)))) 0)"
proof -
  have t: "times (config0\<lparr>times := Some 0\<rparr>) = Some 0" by simp
  show ?thesis
    using alert_times_zero_never_stops [OF t, where j = 7 and w = "page (Some typedLink)" and c = 0]
      alert_times_zero_never_stops [OF t, where j = 0 and w = "page (Some typedLink)" and c = 0]
      alert_never_expires(2) [where j = 7 and w = "page (Some typedLink)" and c = 0
        and a = "config0\<lparr>times := Some 0\<rparr>"]
    by (simp add: Let_def afterAlert_timer resolved_def config0_def DEFAULT_DELAY_def)
qed

text \<open>
  C10. The state of a controller is private to it. Creating a controller, calling
  \<open>alert\<close> (with any argument) or \<open>stop\<close> on it, or a tick of its timer, leaves every
  variable of every other controller unchanged; and a new controller starts from the
  initial values, whatever the others hold.
\<close>

theorem instances_private:
  assumes "c' \<noteq> c"
  shows "instances (TabAlert c w) c' = instances w c' \<and>
         instances (world_of (alert c args w)) c' = instances w c' \<and>
         instances (stop c w) c' = instances w c' \<and>
         instances (timerEvent c w) c' = instances w c' \<and>
         instances (TabAlert c w) c = initial w"
proof -
  have "instances (timerEvent c w) c' = instances w c'"
    using assms
    by (cases "countdown (instances w c) = 1")
      (simp_all add: timerEvent_running timerEvent_expiring)
  then show ?thesis
    using assms by (simp add: TabAlert_def alert_other_instances stop_fields)
qed

theorem instances_private_witness:
  "(1::nat) \<noteq> 0 \<and>
   instances (TabAlert 1 (page (Some typedLink))) 1 = initial (page (Some typedLink)) \<and>
   instances (world_of (alert 0 (ArgObject doneTwice) (TabAlert 1 (page (Some typedLink))))) 1 =
     initial (page (Some typedLink)) \<and>
   instances (stop 0 (TabAlert 1 (page (Some typedLink)))) 1 = initial (page (Some typedLink))"
  using instances_private [of 1 0 "TabAlert 1 (page (Some typedLink))" "ArgObject doneTwice"]
  by (simp add: TabAlert_def)

end
